theory Spec2Isabelle
  imports
    Main
    "HOL-Library.Word"
    "HOL-Library.Multiset"
    "HOL-Library.Char_ord"
    "HOL-Library.List_Lexorder"
begin

unbundle bit_operations_syntax

section \<open>Data model\<close>

type_synonym byte = "8 word"
type_synonym u32bit = "32 word"

text \<open>Exceptions thrown by the certificate layer, as values.\<close>

datatype error =
    Decoding_Error string
  | BER_Bad_Tag string u32bit u32bit
  | Invalid_State string

subsection \<open>Numbers in their string form\<close>

definition digit_char :: "nat \<Rightarrow> char" where
  "digit_char d = char_of (48 + d)"

text \<open>\<open>std::to_string\<close> and the stream output of an unsigned number: decimal digits.\<close>

function std_to_string :: "nat \<Rightarrow> string" where
  "std_to_string n =
     (if n < 10 then [digit_char n] else std_to_string (n div 10) @ [digit_char (n mod 10)])"
  by pat_completeness auto
termination
  by (relation "measure id") auto

declare std_to_string.simps [simp del]

definition char2digit :: "char \<Rightarrow> nat option" where
  "char2digit ch =
     (let n = (of_char ch :: nat) in if 48 \<le> n \<and> n \<le> 57 then Some (n - 48) else None)"

text \<open>
  Modelled from the spec: the typed getters parse the canonical string form of a number
  and fail on anything else. The parser reads decimal digits into a 32-bit value.
\<close>

fun to_u32bit_from :: "u32bit \<Rightarrow> string \<Rightarrow> error + u32bit" where
  "to_u32bit_from n [] = Inr n"
| "to_u32bit_from n (ch # number) =
     (case char2digit ch of
        None \<Rightarrow> Inl (Decoding_Error ''to_u32bit: not a number'')
      | Some digit \<Rightarrow> to_u32bit_from (n * 10 + of_nat digit) number)"

definition to_u32bit :: "string \<Rightarrow> error + u32bit" where
  "to_u32bit number = to_u32bit_from 0 number"

subsection \<open>Attribute store\<close>

text \<open>
  Modelled from the spec: the class \<open>Data_Store\<close> is not part of the sources at hand.
  The spec describes it as an ordered multimap from a string key to string-typed values,
  duplicate keys being legal. It is represented by the list of its entries in key order,
  entries under one key in the order of their insertion; equality of stores is equality
  of these lists.
\<close>

type_synonym Data_Store = "(string \<times> string) list"

text \<open>Modelled from the spec: all values stored under a key; none gives the empty list.\<close>

definition get :: "Data_Store \<Rightarrow> string \<Rightarrow> string list" where
  "get s looking_for = map snd (filter (\<lambda>e. fst e = looking_for) s)"

text \<open>
  Modelled from the spec: the first value stored under a key. The sources call this
  getter without a default; the model raises when no value is stored.
\<close>

definition get1 :: "Data_Store \<Rightarrow> string \<Rightarrow> error + string" where
  "get1 s key =
     (case get s key of
        [] \<Rightarrow> Inl (Invalid_State (''Data_Store::get1: no value for '' @ key))
      | val # _ \<Rightarrow> Inr val)"

text \<open>
  Modelled from the spec: the first value stored under a key, parsed as a number, or the
  default when the key has no value.
\<close>

definition get1_u32bit :: "Data_Store \<Rightarrow> string \<Rightarrow> u32bit \<Rightarrow> error + u32bit" where
  "get1_u32bit s key default_val =
     (case get s key of [] \<Rightarrow> Inr default_val | val # _ \<Rightarrow> to_u32bit val)"

text \<open>Modelled from the spec: whether a value was recorded under the key.\<close>

definition has_value :: "Data_Store \<Rightarrow> string \<Rightarrow> bool" where
  "has_value s key = (get s key \<noteq> [])"

text \<open>
  Modelled from the spec: insertion of one entry into the multimap, behind every entry
  whose key is not greater.
\<close>

fun add :: "string \<Rightarrow> string \<Rightarrow> Data_Store \<Rightarrow> Data_Store" where
  "add key val [] = [(key, val)]"
| "add key val (e # s) = (if key < fst e then (key, val) # e # s else e # add key val s)"

text \<open>Modelled from the spec: a number is stored in its canonical string form.\<close>

definition add_u32bit :: "string \<Rightarrow> u32bit \<Rightarrow> Data_Store \<Rightarrow> Data_Store" where
  "add_u32bit key val s = add key (std_to_string (unat val)) s"

text \<open>Modelled from the spec: insertion of a sequence of entries, one after the other.\<close>

fun add_all :: "(string \<times> string) list \<Rightarrow> Data_Store \<Rightarrow> Data_Store" where
  "add_all [] s = s"
| "add_all (e # es) s = add_all es (add (fst e) (snd e) s)"

subsection \<open>Distinguished names\<close>

text \<open>
  Modelled from the spec: the class \<open>X509_DN\<close> is not part of the sources at hand. A
  name is an ordered sequence of pairs of an attribute type and a value; the attribute
  type is written as the store key under which the pair is recorded. Two names are equal
  when they are equal as unordered multisets of pairs.
\<close>

type_synonym X509_DN = "(string \<times> string) list"

definition X509_DN_eq :: "X509_DN \<Rightarrow> X509_DN \<Rightarrow> bool" where
  "X509_DN_eq dn1 dn2 = (mset dn1 = mset dn2)"

definition contents :: "X509_DN \<Rightarrow> (string \<times> string) list" where
  "contents dn = dn"

subsection \<open>Certificate objects\<close>

record AlgorithmIdentifier =
  oid :: string
  parameters :: "byte list"

text \<open>
  The members of \<open>X509_Object\<close> (signature algorithm, signed body, signature) followed
  by the members of \<open>X509_Certificate\<close>.
\<close>

record X509_Certificate =
  sig_algo :: AlgorithmIdentifier
  tbs_bits :: "byte list"
  sig :: "byte list"
  self_signed :: bool
  subject :: Data_Store
  issuer :: Data_Store

record BER_Object =
  type_tag :: u32bit
  class_tag :: u32bit
  ber_value :: "byte list"

text \<open>
  What the BER decoder hands to \<open>force_decode\<close> from the signed body, item by item in
  the order of the calls: the version (0 when the optional field is absent), the serial
  number, the inner signature algorithm, the issuer name, the two times of the validity
  (in their readable string form), the subject name, the object at the position of the
  public key, the two optional unique identifiers, the object at the position of the
  extensions, and whether items remain after it.
\<close>

record TBS_Certificate =
  version :: nat
  serial_bn :: int
  sig_algo_inner :: AlgorithmIdentifier
  dn_issuer :: X509_DN
  tbs_start :: string
  tbs_end :: string
  dn_subject :: X509_DN
  public_key :: BER_Object
  v2_issuer_key_id :: "byte list"
  v2_subject_key_id :: "byte list"
  v3_exts_data :: BER_Object
  more_items :: bool

type_synonym Public_Key = "byte list"

subsection \<open>External collaborators\<close>

text \<open>
  Constants and functions that the certificate code uses and that are declared outside
  the sources at hand; they are parameters of the model: the alias table of field names,
  the key usage bits and their sentinel, the path limit sentinel, the ASN.1 tags, the OID
  name registry, the hex, big integer and PEM codecs, the extension processor (which
  yields the entries that the extensions contribute to the subject and to the issuer
  store) and the public key parser.
\<close>

record Collab =
  deref_info_field :: "string \<Rightarrow> string"
  NO_CONSTRAINTS :: u32bit
  DIGITAL_SIGNATURE :: u32bit
  NON_REPUDIATION :: u32bit
  KEY_ENCIPHERMENT :: u32bit
  DATA_ENCIPHERMENT :: u32bit
  KEY_AGREEMENT :: u32bit
  KEY_CERT_SIGN :: u32bit
  CRL_SIGN :: u32bit
  NO_CERT_PATH_LIMIT :: u32bit
  SEQUENCE :: u32bit
  CONSTRUCTED :: u32bit
  CONTEXT_SPECIFIC :: u32bit
  NO_OBJECT :: u32bit
  OIDS_lookup :: "string \<Rightarrow> string"
  hex_encode :: "byte list \<Rightarrow> string"
  hex_decode :: "string \<Rightarrow> error + byte list"
  BigInt_encode :: "int \<Rightarrow> byte list"
  put_in_sequence :: "byte list \<Rightarrow> byte list"
  PEM_Code_encode :: "byte list \<Rightarrow> string \<Rightarrow> string"
  decode_extensions :: "byte list \<Rightarrow> error + (string \<times> string) list \<times> (string \<times> string) list"
  load_key :: "string \<Rightarrow> error + Public_Key"
  PEM_encode :: "Public_Key \<Rightarrow> string"

text \<open>Modelled from the spec: a byte buffer is stored in its hex form and read back from it.\<close>

definition add_memvec :: "Collab \<Rightarrow> string \<Rightarrow> byte list \<Rightarrow> Data_Store \<Rightarrow> Data_Store" where
  "add_memvec c key val s = add key (hex_encode c val) s"

definition get1_memvec :: "Collab \<Rightarrow> Data_Store \<Rightarrow> string \<Rightarrow> error + byte list" where
  "get1_memvec c s key = (case get s key of [] \<Rightarrow> Inr [] | val # _ \<Rightarrow> hex_decode c val)"

section \<open>Queries\<close>

definition lookup_oids :: "Collab \<Rightarrow> string list \<Rightarrow> string list" where
  "lookup_oids c in_oids = map (OIDS_lookup c) in_oids"

definition x509_version :: "X509_Certificate \<Rightarrow> error + u32bit" where
  "x509_version cert =
     (case get1_u32bit (subject cert) ''X509.Certificate.version'' 0 of
        Inl e \<Rightarrow> Inl e
      | Inr v \<Rightarrow> Inr (v + 1))"

definition start_time :: "X509_Certificate \<Rightarrow> error + string" where
  "start_time cert = get1 (subject cert) ''X509.Certificate.start''"

definition end_time :: "X509_Certificate \<Rightarrow> error + string" where
  "end_time cert = get1 (subject cert) ''X509.Certificate.end''"

definition subject_info :: "Collab \<Rightarrow> X509_Certificate \<Rightarrow> string \<Rightarrow> string list" where
  "subject_info c cert what = get (subject cert) (deref_info_field c what)"

definition issuer_info :: "Collab \<Rightarrow> X509_Certificate \<Rightarrow> string \<Rightarrow> string list" where
  "issuer_info c cert what = get (issuer cert) (deref_info_field c what)"

definition subject_public_key :: "Collab \<Rightarrow> X509_Certificate \<Rightarrow> error + Public_Key" where
  "subject_public_key c cert =
     (case get1 (subject cert) ''X509.Certificate.public_key'' of
        Inl e \<Rightarrow> Inl e
      | Inr source \<Rightarrow> load_key c source)"

definition constraints :: "Collab \<Rightarrow> X509_Certificate \<Rightarrow> error + u32bit" where
  "constraints c cert = get1_u32bit (subject cert) ''X509v3.KeyUsage'' (NO_CONSTRAINTS c)"

definition is_CA_cert :: "Collab \<Rightarrow> X509_Certificate \<Rightarrow> error + bool" where
  "is_CA_cert c cert =
     (case get1_u32bit (subject cert) ''X509v3.BasicConstraints.is_ca'' 0 of
        Inl e \<Rightarrow> Inl e
      | Inr is_ca \<Rightarrow>
          if is_ca = 0 then Inr False
          else (case constraints c cert of
                  Inl e \<Rightarrow> Inl e
                | Inr k \<Rightarrow>
                    if k AND KEY_CERT_SIGN c \<noteq> 0 \<or> k = NO_CONSTRAINTS c then Inr True
                    else Inr False))"

definition path_limit :: "X509_Certificate \<Rightarrow> error + u32bit" where
  "path_limit cert = get1_u32bit (subject cert) ''X509v3.BasicConstraints.path_constraint'' 0"

definition ex_constraints :: "Collab \<Rightarrow> X509_Certificate \<Rightarrow> string list" where
  "ex_constraints c cert = lookup_oids c (get (subject cert) ''X509v3.ExtendedKeyUsage'')"

definition policies :: "Collab \<Rightarrow> X509_Certificate \<Rightarrow> string list" where
  "policies c cert = lookup_oids c (get (subject cert) ''X509v3.CertificatePolicies'')"

definition authority_key_id :: "Collab \<Rightarrow> X509_Certificate \<Rightarrow> error + byte list" where
  "authority_key_id c cert = get1_memvec c (issuer cert) ''X509v3.AuthorityKeyIdentifier''"

definition subject_key_id :: "Collab \<Rightarrow> X509_Certificate \<Rightarrow> error + byte list" where
  "subject_key_id c cert = get1_memvec c (subject cert) ''X509v3.SubjectKeyIdentifier''"

definition serial_number :: "Collab \<Rightarrow> X509_Certificate \<Rightarrow> error + byte list" where
  "serial_number c cert = get1_memvec c (subject cert) ''X509.Certificate.serial''"

subsection \<open>DNS name matching\<close>

text \<open>
  \<open>s.compare(pos, len, str)\<close> of \<open>std::string\<close>: the sign of the comparison of the
  substring of \<open>s\<close> at \<open>pos\<close> of length at most \<open>len\<close> with \<open>str\<close>. The only call
  has \<open>pos \<le> length s\<close>, so the out-of-range exception cannot occur.
\<close>

definition compare :: "string \<Rightarrow> nat \<Rightarrow> nat \<Rightarrow> string \<Rightarrow> int" where
  "compare s pos len str =
     (let sub = take len (drop pos s)
      in if sub = str then 0 else if sub < str then - 1 else 1)"

fun cert_subject_dns_match :: "string \<Rightarrow> string list \<Rightarrow> bool" where
  "cert_subject_dns_match name [] = False"
| "cert_subject_dns_match name (cn # cert_names) =
     (if cn = name then True
      else if length cn > 2 \<and> cn ! 0 = CHR ''*'' \<and> cn ! 1 = CHR ''.'' \<and> length name > length cn
        then (let base = drop 1 cn
              in if compare name (length name - length base) (length base) base = 0 then True
                 else cert_subject_dns_match name cert_names)
      else cert_subject_dns_match name cert_names)"

definition matches_dns_name :: "Collab \<Rightarrow> X509_Certificate \<Rightarrow> string \<Rightarrow> bool" where
  "matches_dns_name c cert name =
     (if name = '''' then False
      else if cert_subject_dns_match name (subject_info c cert ''DNS'') then True
      else if cert_subject_dns_match name (subject_info c cert ''Name'') then True
      else False)"

subsection \<open>Equality\<close>

text \<open>
  Modelled from the spec: \<open>same_mem\<close> is declared outside the sources at hand; it
  compares the first \<open>n\<close> bytes of two buffers.
\<close>

definition same_mem :: "byte list \<Rightarrow> byte list \<Rightarrow> nat \<Rightarrow> bool" where
  "same_mem p1 p2 n = (take n p1 = take n p2)"

text \<open>\<open>MemoryRegion::operator==\<close>.\<close>

definition MemoryRegion_eq :: "byte list \<Rightarrow> byte list \<Rightarrow> bool" where
  "MemoryRegion_eq this other = (length this = length other \<and> same_mem this other (length this))"

text \<open>\<open>X509_Certificate::operator==\<close> and \<open>operator!=\<close>.\<close>

definition X509_Certificate_eq :: "X509_Certificate \<Rightarrow> X509_Certificate \<Rightarrow> bool" where
  "X509_Certificate_eq this other =
     (MemoryRegion_eq (sig this) (sig other) \<and>
      sig_algo this = sig_algo other \<and>
      self_signed this = self_signed other \<and>
      issuer this = issuer other \<and>
      subject this = subject other)"

definition X509_Certificate_neq :: "X509_Certificate \<Rightarrow> X509_Certificate \<Rightarrow> bool" where
  "X509_Certificate_neq cert1 cert2 = (\<not> X509_Certificate_eq cert1 cert2)"

section \<open>Decoder\<close>

text \<open>
  Modelled from the spec: the extension processor appends the entries of the decoded
  extensions to the subject and to the issuer store.
\<close>

definition contents_to ::
  "(string \<times> string) list \<times> (string \<times> string) list \<Rightarrow> X509_Certificate \<Rightarrow> X509_Certificate" where
  "contents_to extensions this =
     this\<lparr> subject := add_all (fst extensions) (subject this),
           issuer := add_all (snd extensions) (issuer this) \<rparr>"

text \<open>The extensions block of \<open>force_decode\<close> (source lines 105 to 117).\<close>

definition apply_extensions ::
  "Collab \<Rightarrow> TBS_Certificate \<Rightarrow> X509_Certificate \<Rightarrow> error + X509_Certificate" where
  "apply_extensions c t this =
     (if type_tag (v3_exts_data t) = 3 \<and>
         class_tag (v3_exts_data t) = (CONSTRUCTED c OR CONTEXT_SPECIFIC c)
      then (case decode_extensions c (ber_value (v3_exts_data t)) of
              Inl e \<Rightarrow> Inl e
            | Inr extensions \<Rightarrow> Inr (contents_to extensions this))
      else if type_tag (v3_exts_data t) \<noteq> NO_OBJECT c
      then Inl (BER_Bad_Tag ''Unknown tag in X.509 cert''
                 (type_tag (v3_exts_data t)) (class_tag (v3_exts_data t)))
      else Inr this)"

text \<open>The scalar fields that \<open>force_decode\<close> records (source lines 122 to 135).\<close>

definition store_fields :: "Collab \<Rightarrow> TBS_Certificate \<Rightarrow> X509_Certificate \<Rightarrow> X509_Certificate" where
  "store_fields c t this =
     (let s1 = add_u32bit ''X509.Certificate.version'' (of_nat (version t)) (subject this);
          s2 = add_memvec c ''X509.Certificate.serial'' (BigInt_encode c (serial_bn t)) s1;
          s3 = add ''X509.Certificate.start'' (tbs_start t) s2;
          s4 = add ''X509.Certificate.end'' (tbs_end t) s3;
          i1 = add_memvec c ''X509.Certificate.v2.key_id'' (v2_issuer_key_id t) (issuer this);
          s5 = add_memvec c ''X509.Certificate.v2.key_id'' (v2_subject_key_id t) s4;
          s6 = add ''X509.Certificate.public_key''
                 (PEM_Code_encode c (put_in_sequence c (ber_value (public_key t))) ''PUBLIC KEY'')
                 s5
      in this\<lparr> subject := s6, issuer := i1 \<rparr>)"

text \<open>The default of the path limit at the end of \<open>force_decode\<close> (source lines 137 to 144).\<close>

definition default_path_limit :: "Collab \<Rightarrow> X509_Certificate \<Rightarrow> error + X509_Certificate" where
  "default_path_limit c this =
     (case is_CA_cert c this of
        Inl e \<Rightarrow> Inl e
      | Inr ca \<Rightarrow>
          if ca \<and> \<not> has_value (subject this) ''X509v3.BasicConstraints.path_constraint''
          then (case x509_version this of
                  Inl e \<Rightarrow> Inl e
                | Inr v \<Rightarrow>
                    let limit = (if v < 3 then NO_CERT_PATH_LIMIT c else 0)
                    in Inr (this\<lparr> subject :=
                              add_u32bit ''X509v3.BasicConstraints.path_constraint'' limit
                                (subject this) \<rparr>))
          else Inr this)"

definition force_decode ::
  "Collab \<Rightarrow> TBS_Certificate \<Rightarrow> X509_Certificate \<Rightarrow> error + X509_Certificate" where
  "force_decode c t this =
     (if version t > 2
      then Inl (Decoding_Error (''Unknown X.509 cert version '' @ std_to_string (version t)))
      else if sig_algo this \<noteq> sig_algo_inner t
      then Inl (Decoding_Error ''Algorithm identifier mismatch'')
      else
        let this1 = this\<lparr> self_signed := X509_DN_eq (dn_subject t) (dn_issuer t) \<rparr>;
            this2 = this1\<lparr> subject := add_all (contents (dn_subject t)) (subject this1) \<rparr>;
            this3 = this2\<lparr> issuer := add_all (contents (dn_issuer t)) (issuer this2) \<rparr>
        in if type_tag (public_key t) \<noteq> SEQUENCE c \<or> class_tag (public_key t) \<noteq> CONSTRUCTED c
           then Inl (BER_Bad_Tag ''X509_Certificate: Unexpected tag for public key''
                      (type_tag (public_key t)) (class_tag (public_key t)))
           else (case apply_extensions c t this3 of
                   Inl e \<Rightarrow> Inl e
                 | Inr this4 \<Rightarrow>
                     if more_items t
                     then Inl (Decoding_Error ''TBSCertificate has more items that expected'')
                     else default_path_limit c (store_fields c t this4)))"

text \<open>
  The constructor: the members of the envelope as decoded by \<open>X509_Object\<close>, the flag
  cleared, both stores empty, then the decoding of the signed body.
\<close>

definition X509_Certificate_ctor ::
  "Collab \<Rightarrow> AlgorithmIdentifier \<Rightarrow> byte list \<Rightarrow> byte list \<Rightarrow> TBS_Certificate
     \<Rightarrow> error + X509_Certificate" where
  "X509_Certificate_ctor c algo tbs signature t =
     force_decode c t
       \<lparr> sig_algo = algo, tbs_bits = tbs, sig = signature, self_signed = False,
         subject = [], issuer = [] \<rparr>"

section \<open>Renderer\<close>

definition dn_fields :: "string list" where
  "dn_fields =
     [''Name'', ''Email'', ''Organization'', ''Organizational Unit'', ''Locality'', ''State'',
      ''Country'', ''IP'', ''DNS'', ''URI'', ''PKIX.XMPPAddr'']"

text \<open>One of the two loops over \<open>dn_fields\<close>; \<open>who\<close> is \<open>Subject\<close> or \<open>Issuer\<close>.\<close>

fun info_lines :: "string \<Rightarrow> (string \<Rightarrow> string list) \<Rightarrow> string list \<Rightarrow> string" where
  "info_lines who info [] = ''''"
| "info_lines who info (field # rest) =
     (let vals = info field
      in (if vals = [] then ''''
          else who @ field @ '':'' @ concat (map (\<lambda>v. '' '' @ v) vals) @ ''\<newline>'')
         @ info_lines who info rest)"

definition constraints_lines :: "Collab \<Rightarrow> u32bit \<Rightarrow> string" where
  "constraints_lines c k =
     (if k = NO_CONSTRAINTS c then '' None\<newline>''
      else
        (if k AND DIGITAL_SIGNATURE c \<noteq> 0 then ''   Digital Signature\<newline>'' else '''') @
        (if k AND NON_REPUDIATION c \<noteq> 0 then ''   Non-Repuidation\<newline>'' else '''') @
        (if k AND KEY_ENCIPHERMENT c \<noteq> 0 then ''   Key Encipherment\<newline>'' else '''') @
        (if k AND DATA_ENCIPHERMENT c \<noteq> 0 then ''   Data Encipherment\<newline>'' else '''') @
        (if k AND KEY_AGREEMENT c \<noteq> 0 then ''   Key Agreement\<newline>'' else '''') @
        (if k AND KEY_CERT_SIGN c \<noteq> 0 then ''   Cert Sign\<newline>'' else '''') @
        (if k AND CRL_SIGN c \<noteq> 0 then ''   CRL Sign\<newline>'' else ''''))"

definition name_lines :: "string \<Rightarrow> string list \<Rightarrow> string" where
  "name_lines title names =
     (if names = [] then ''''
      else title @ ''\<newline>'' @ concat (map (\<lambda>n. ''   '' @ n @ ''\<newline>'') names))"

definition to_string :: "Collab \<Rightarrow> X509_Certificate \<Rightarrow> error + string" where
  "to_string c cert =
     (case x509_version cert of Inl e \<Rightarrow> Inl e | Inr ver \<Rightarrow>
     (case start_time cert of Inl e \<Rightarrow> Inl e | Inr start \<Rightarrow>
     (case end_time cert of Inl e \<Rightarrow> Inl e | Inr end_t \<Rightarrow>
     (case constraints c cert of Inl e \<Rightarrow> Inl e | Inr k \<Rightarrow>
     (case serial_number c cert of Inl e \<Rightarrow> Inl e | Inr serial \<Rightarrow>
     (case authority_key_id c cert of Inl e \<Rightarrow> Inl e | Inr aki \<Rightarrow>
     (case subject_key_id c cert of Inl e \<Rightarrow> Inl e | Inr ski \<Rightarrow>
     (case subject_public_key c cert of Inl e \<Rightarrow> Inl e | Inr pubkey \<Rightarrow>
        Inr (info_lines ''Subject '' (subject_info c cert) dn_fields @
             info_lines ''Issuer '' (issuer_info c cert) dn_fields @
             ''Version: '' @ std_to_string (unat ver) @ ''\<newline>'' @
             ''Not valid before: '' @ start @ ''\<newline>'' @
             ''Not valid after: '' @ end_t @ ''\<newline>'' @
             ''Constraints:\<newline>'' @ constraints_lines c k @
             name_lines ''Policies: '' (policies c cert) @
             name_lines ''Extended Constraints:'' (ex_constraints c cert) @
             ''Signature algorithm: '' @ OIDS_lookup c (oid (sig_algo cert)) @ ''\<newline>'' @
             ''Serial number: '' @ hex_encode c serial @ ''\<newline>'' @
             (if aki \<noteq> [] then ''Authority keyid: '' @ hex_encode c aki @ ''\<newline>'' else []) @
             (if ski \<noteq> [] then ''Subject keyid: '' @ hex_encode c ski @ ''\<newline>'' else []) @
             ''Public Key:\<newline>'' @ PEM_encode c pubkey)))))))))"

section \<open>Statements of the specification, in its own words\<close>

text \<open>
  The wildcard rule in the specification's words: the candidate starts with \<open>*.\<close>, the
  input is strictly longer than the candidate, and the input's trailing suffix of length
  \<open>length cn - 1\<close> equals the candidate from index 1 on.
\<close>

definition spec_wildcard_match :: "string \<Rightarrow> string \<Rightarrow> bool" where
  "spec_wildcard_match name cn =
     (take 2 cn = ''*.'' \<and> length name > length cn \<and>
      drop (length name - (length cn - 1)) name = drop 1 cn)"

definition spec_names_match :: "string \<Rightarrow> string list \<Rightarrow> bool" where
  "spec_names_match name cert_names =
     (\<exists>cn \<in> set cert_names. cn = name \<or> spec_wildcard_match name cn)"

definition spec_matches_dns_name :: "Collab \<Rightarrow> X509_Certificate \<Rightarrow> string \<Rightarrow> bool" where
  "spec_matches_dns_name c cert name =
     (name \<noteq> '''' \<and>
      (spec_names_match name (subject_info c cert ''DNS'') \<or>
       spec_names_match name (subject_info c cert ''Name'')))"

section \<open>Well-formed inputs\<close>

text \<open>Whether the object at the position of the extensions carries the extensions tag.\<close>

definition has_extensions :: "Collab \<Rightarrow> TBS_Certificate \<Rightarrow> bool" where
  "has_extensions c t =
     (type_tag (v3_exts_data t) = 3 \<and>
      class_tag (v3_exts_data t) = (CONSTRUCTED c OR CONTEXT_SPECIFIC c))"

text \<open>
  The entries that the subject name and the extensions contribute to the subject store,
  in the order of their insertion.
\<close>

definition subject_entries :: "Collab \<Rightarrow> TBS_Certificate \<Rightarrow> (string \<times> string) list" where
  "subject_entries c t =
     contents (dn_subject t) @
     (if has_extensions c t
      then (case decode_extensions c (ber_value (v3_exts_data t)) of
              Inl e \<Rightarrow> []
            | Inr extensions \<Rightarrow> fst extensions)
      else [])"

definition is_number :: "string \<Rightarrow> bool" where
  "is_number val = (\<forall>ch \<in> set val. char2digit ch \<noteq> None)"

text \<open>
  An input that is well-formed apart from its version: the two signature algorithms
  agree, the public key is a constructed sequence, the extensions are absent or are
  accepted by the extension processor, nothing follows them, and the entries that the
  subject name and the extensions record neither use the key of the version field nor
  put anything but a number under the keys that \<open>is_CA_cert\<close> reads.
\<close>

definition otherwise_well_formed :: "Collab \<Rightarrow> AlgorithmIdentifier \<Rightarrow> TBS_Certificate \<Rightarrow> bool" where
  "otherwise_well_formed c algo t =
     (algo = sig_algo_inner t \<and>
      type_tag (public_key t) = SEQUENCE c \<and>
      class_tag (public_key t) = CONSTRUCTED c \<and>
      (if has_extensions c t then \<not> isl (decode_extensions c (ber_value (v3_exts_data t)))
       else type_tag (v3_exts_data t) = NO_OBJECT c) \<and>
      \<not> more_items t \<and>
      (\<forall>e \<in> set (subject_entries c t).
         fst e \<noteq> ''X509.Certificate.version'' \<and>
         (fst e = ''X509v3.BasicConstraints.is_ca'' \<or> fst e = ''X509v3.KeyUsage''
            \<longrightarrow> is_number (snd e))))"

section \<open>Concrete inputs\<close>

text \<open>
  A small instance of the collaborators, for concrete inputs: the customary values of
  the constants, an alias table that resolves \<open>Name\<close> to the common-name key, an OID
  registry without names, and simple stand-ins for the codecs and the extension
  processor. The stand-in extension processor reads one byte as the CA flag and two
  further bytes, when present, as the key usage bits.
\<close>

definition hex_digit :: "nat \<Rightarrow> char" where
  "hex_digit n = ''0123456789ABCDEF'' ! (n mod 16)"

definition example_hex_encode :: "byte list \<Rightarrow> string" where
  "example_hex_encode bs = concat (map (\<lambda>b. [hex_digit (unat b div 16), hex_digit (unat b)]) bs)"

definition hex_value :: "char \<Rightarrow> nat option" where
  "hex_value ch =
     (let n = (of_char ch :: nat)
      in if 48 \<le> n \<and> n \<le> 57 then Some (n - 48)
         else if 65 \<le> n \<and> n \<le> 70 then Some (n - 55)
         else None)"

fun example_hex_decode :: "string \<Rightarrow> error + byte list" where
  "example_hex_decode [] = Inr []"
| "example_hex_decode [a] = Inl (Decoding_Error ''hex_decode: odd length'')"
| "example_hex_decode (a # b # rest) =
     (case (hex_value a, hex_value b, example_hex_decode rest) of
        (Some x, Some y, Inr bs) \<Rightarrow> Inr (of_nat (16 * x + y) # bs)
      | _ \<Rightarrow> Inl (Decoding_Error ''hex_decode: invalid character''))"

function bytes_be :: "nat \<Rightarrow> byte list" where
  "bytes_be n = (if n < 256 then [of_nat n] else bytes_be (n div 256) @ [of_nat (n mod 256)])"
  by pat_completeness auto
termination
  by (relation "measure id") auto

declare bytes_be.simps [simp del]

definition example_decode_extensions ::
  "byte list \<Rightarrow> error + (string \<times> string) list \<times> (string \<times> string) list" where
  "example_decode_extensions bs =
     (case bs of
        [is_ca] \<Rightarrow> Inr ([(''X509v3.BasicConstraints.is_ca'', std_to_string (unat is_ca))], [])
      | [is_ca, hi, lo] \<Rightarrow>
          Inr ([(''X509v3.BasicConstraints.is_ca'', std_to_string (unat is_ca)),
                (''X509v3.KeyUsage'', std_to_string (256 * unat hi + unat lo))], [])
      | _ \<Rightarrow> Inl (Decoding_Error ''Extensions: unsupported encoding''))"

definition example_collab :: Collab where
  "example_collab =
     \<lparr> deref_info_field = (\<lambda>what. if what = ''Name'' then ''X520.CommonName'' else what),
       NO_CONSTRAINTS = 0,
       DIGITAL_SIGNATURE = 32768,
       NON_REPUDIATION = 16384,
       KEY_ENCIPHERMENT = 8192,
       DATA_ENCIPHERMENT = 4096,
       KEY_AGREEMENT = 2048,
       KEY_CERT_SIGN = 1024,
       CRL_SIGN = 512,
       NO_CERT_PATH_LIMIT = 0xFFFFFFF0,
       SEQUENCE = 0x10,
       CONSTRUCTED = 0x20,
       CONTEXT_SPECIFIC = 0x80,
       NO_OBJECT = 0xFF00,
       OIDS_lookup = (\<lambda>oid. oid),
       hex_encode = example_hex_encode,
       hex_decode = example_hex_decode,
       BigInt_encode = (\<lambda>n. bytes_be (nat \<bar>n\<bar>)),
       put_in_sequence = (\<lambda>bs. 0x30 # of_nat (length bs) # bs),
       PEM_Code_encode = (\<lambda>bs label.
          ''-----BEGIN '' @ label @ ''-----\<newline>'' @ example_hex_encode bs @
          ''\<newline>-----END '' @ label @ ''-----\<newline>''),
       decode_extensions = example_decode_extensions,
       load_key = (\<lambda>source. Inr (map (\<lambda>ch. of_nat (of_char ch)) source)),
       PEM_encode = (\<lambda>key. map (\<lambda>b. char_of (unat b)) key) \<rparr>"

definition cert_with_subject :: "Data_Store \<Rightarrow> X509_Certificate" where
  "cert_with_subject s =
     \<lparr> sig_algo = \<lparr> oid = ''1.2.840.113549.1.1.5'', parameters = [] \<rparr>,
       tbs_bits = [], sig = [], self_signed = False, subject = s, issuer = [] \<rparr>"

definition example_algo :: AlgorithmIdentifier where
  "example_algo = \<lparr> oid = ''1.2.840.113549.1.1.5'', parameters = [5, 0] \<rparr>"

text \<open>
  A signed body with the given version and extension bytes; no extension bytes stand for
  a body without the extensions block. The subject name is the issuer name in another
  order.
\<close>

definition example_tbs :: "nat \<Rightarrow> byte list \<Rightarrow> TBS_Certificate" where
  "example_tbs v exts =
     \<lparr> version = v,
       serial_bn = 4660,
       sig_algo_inner = example_algo,
       dn_issuer = [(''X520.CommonName'', ''Root''), (''X520.Organization'', ''Example'')],
       tbs_start = ''2010/01/01 00:00:00 UTC'',
       tbs_end = ''2020/01/01 00:00:00 UTC'',
       dn_subject = [(''X520.Organization'', ''Example''), (''X520.CommonName'', ''Root'')],
       public_key = \<lparr> type_tag = 0x10, class_tag = 0x20, ber_value = [1, 2, 3] \<rparr>,
       v2_issuer_key_id = [],
       v2_subject_key_id = [],
       v3_exts_data =
         (if exts = [] then \<lparr> type_tag = 0xFF00, class_tag = 0, ber_value = [] \<rparr>
          else \<lparr> type_tag = 3, class_tag = 0xA0, ber_value = exts \<rparr>),
       more_items = False \<rparr>"

definition example_cert :: "nat \<Rightarrow> byte list \<Rightarrow> error + X509_Certificate" where
  "example_cert v exts =
     X509_Certificate_ctor example_collab example_algo [48, 0] [1, 2, 3, 4] (example_tbs v exts)"

section \<open>Properties of the number codec and of the store\<close>

lemma char2digit_digit_char: "d < 10 \<Longrightarrow> char2digit (digit_char d) = Some d"
  by (simp add: char2digit_def digit_char_def Let_def)

lemma to_u32bit_from_snoc:
  "to_u32bit_from n (number @ [ch]) =
     (case to_u32bit_from n number of
        Inl e \<Rightarrow> Inl e
      | Inr m \<Rightarrow>
          (case char2digit ch of
             None \<Rightarrow> Inl (Decoding_Error ''to_u32bit: not a number'')
           | Some digit \<Rightarrow> Inr (m * 10 + of_nat digit)))"
  by (induction number arbitrary: n) (auto split: option.splits)

lemma to_u32bit_std_to_string: "to_u32bit (std_to_string n) = Inr (of_nat n)"
proof (induction n rule: std_to_string.induct)
  case (1 n)
  show ?case
  proof (cases "n < 10")
    case True
    then show ?thesis
      by (simp add: to_u32bit_def std_to_string.simps [of n] char2digit_digit_char)
  next
    case False
    then have IH: "to_u32bit_from 0 (std_to_string (n div 10)) = Inr (of_nat (n div 10))"
      using "1.IH" by (simp add: to_u32bit_def)
    have "(of_nat (n div 10 * 10 + n mod 10) :: u32bit) = of_nat (n div 10) * 10 + of_nat (n mod 10)"
      by (simp only: of_nat_add of_nat_mult of_nat_numeral)
    moreover have "n div 10 * 10 + n mod 10 = n" by simp
    ultimately have eq: "(of_nat (n div 10) * 10 + of_nat (n mod 10) :: u32bit) = of_nat n"
      by (simp only:)
    have "std_to_string n = std_to_string (n div 10) @ [digit_char (n mod 10)]"
      using False by (subst std_to_string.simps) simp
    then show ?thesis
      by (simp add: to_u32bit_def to_u32bit_from_snoc IH char2digit_digit_char eq)
  qed
qed

lemma to_u32bit_unat: "to_u32bit (std_to_string (unat w)) = Inr w"
  by (simp add: to_u32bit_std_to_string)

lemma is_number_to_u32bit_from: "is_number val \<Longrightarrow> \<exists>m. to_u32bit_from n val = Inr m"
  by (induction val arbitrary: n) (auto simp: is_number_def split: option.splits)

lemma is_number_to_u32bit: "is_number val \<Longrightarrow> \<exists>m. to_u32bit val = Inr m"
  by (simp add: to_u32bit_def is_number_to_u32bit_from)

lemma get_add_other: "key' \<noteq> key \<Longrightarrow> get (add key val s) key' = get s key'"
  by (induction s) (auto simp: get_def)

lemma set_add: "set (add key val s) = insert (key, val) (set s)"
  by (induction s) auto

lemma set_get: "set (get s key) = {val. (key, val) \<in> set s}"
  by (force simp: get_def)

lemma set_get_add:
  "set (get (add key val s) key') = set (get s key') \<union> (if key' = key then {val} else {})"
  by (auto simp: set_get set_add)

lemma get_add_absent: "get s key = [] \<Longrightarrow> get (add key val s) key = [val]"
  by (induction s) (auto simp: get_def split: if_splits)

lemma set_get_add_all:
  "set (get (add_all es s) key) = set (get s key) \<union> {val. (key, val) \<in> set es}"
proof (induction es arbitrary: s)
  case Nil
  show ?case by simp
next
  case (Cons e es)
  show ?case
    by (cases e) (auto simp: Cons.IH set_get_add)
qed

lemma get_add_all_Nil:
  "(get (add_all es s) key = []) = (get s key = [] \<and> key \<notin> fst ` set es)"
proof -
  have "(get (add_all es s) key = []) = (set (get (add_all es s) key) = {})"
    by simp
  also have "\<dots> = (get s key = [] \<and> key \<notin> fst ` set es)"
    unfolding set_get_add_all by force
  finally show ?thesis .
qed

lemma get1_u32bit_add_u32bit:
  "get s key = [] \<Longrightarrow> get1_u32bit (add_u32bit key w s) key d = Inr w"
  by (simp add: get1_u32bit_def add_u32bit_def get_add_absent to_u32bit_unat)

lemma get_empty: "get [] key = []"
  by (simp add: get_def)

section \<open>Properties of DNS name matching\<close>

lemma compare_suffix:
  "length base \<le> length name \<Longrightarrow>
   (compare name (length name - length base) (length base) base = 0) =
   (drop (length name - length base) name = base)"
  by (simp add: compare_def Let_def)

lemma starts_with_wildcard:
  "2 < length cn \<Longrightarrow> (cn ! 0 = CHR ''*'' \<and> cn ! 1 = CHR ''.'') = (take 2 cn = ''*.'')"
  by (cases cn; cases "tl cn") auto

lemma wildcard_branch:
  "(2 < length cn \<and> cn ! 0 = CHR ''*'' \<and> cn ! 1 = CHR ''.'' \<and> length cn < length name \<and>
    compare name (length name - length (drop 1 cn)) (length (drop 1 cn)) (drop 1 cn) = 0)
   = (2 < length cn \<and> spec_wildcard_match name cn)"
proof (cases "2 < length cn \<and> length cn < length name")
  case True
  then have le: "length (drop 1 cn) \<le> length name" by auto
  have w: "(cn ! 0 = CHR ''*'' \<and> cn ! 1 = CHR ''.'') = (take 2 cn = ''*.'')"
    by (rule starts_with_wildcard) (use True in simp)
  have cmp: "(compare name (length name - length (drop 1 cn)) (length (drop 1 cn)) (drop 1 cn) = 0)
      = (drop (length name - (length cn - 1)) name = drop 1 cn)"
    using compare_suffix [OF le] by simp
  show ?thesis
    unfolding spec_wildcard_match_def cmp using True w by blast
next
  case False
  then show ?thesis by (auto simp: spec_wildcard_match_def)
qed

lemma cert_subject_dns_match_iff:
  "cert_subject_dns_match name cert_names =
     (\<exists>cn \<in> set cert_names. cn = name \<or> (2 < length cn \<and> spec_wildcard_match name cn))"
proof (induction cert_names)
  case Nil
  show ?case by simp
next
  case (Cons cn cert_names)
  show ?case
    using Cons.IH wildcard_branch [of cn name] by (auto simp: Let_def)
qed

lemma short_names_match:
  "\<forall>cn \<in> set cert_names. length cn \<le> 2 \<Longrightarrow>
   cert_subject_dns_match name cert_names = (name \<in> set cert_names)"
  unfolding cert_subject_dns_match_iff by fastforce

text \<open>
  C6, as the specification states it: the matching algorithm applies the wildcard rule to
  every candidate that starts with \<open>*.\<close>. The code does not: for the stored entry \<open>*.\<close>
  and the input \<open>example.com.\<close> the specification's algorithm matches and the code
  returns false.
\<close>

theorem matches_dns_name_spec_counterexample:
  "spec_matches_dns_name example_collab (cert_with_subject [(''DNS'', ''*.'')]) ''example.com.'' \<and>
   \<not> matches_dns_name example_collab (cert_with_subject [(''DNS'', ''*.'')]) ''example.com.''"
  by (simp add: spec_matches_dns_name_def spec_names_match_def spec_wildcard_match_def
      matches_dns_name_def subject_info_def get_def example_collab_def cert_with_subject_def)

text \<open>
  C6, amended: the empty input never matches; otherwise the input matches exactly when
  some \<open>DNS\<close> entry or, failing that, some \<open>Name\<close> entry equals the input or has more
  than two characters and satisfies the wildcard rule.
\<close>

theorem matches_dns_name_amended:
  "matches_dns_name c cert name =
     (name \<noteq> '''' \<and>
      (\<exists>cn \<in> set (subject_info c cert ''DNS'') \<union> set (subject_info c cert ''Name'').
         cn = name \<or> (2 < length cn \<and> spec_wildcard_match name cn)))"
  unfolding matches_dns_name_def cert_subject_dns_match_iff by auto

theorem matches_dns_name_amended_witness:
  "matches_dns_name example_collab
     (cert_with_subject [(''DNS'', ''www.example.org''), (''X520.CommonName'', ''*.example.com'')])
     ''mail.example.com''"
  using matches_dns_name_amended [of example_collab
     "cert_with_subject [(''DNS'', ''www.example.org''), (''X520.CommonName'', ''*.example.com'')]"
     "''mail.example.com''"]
  by (simp add: spec_wildcard_match_def subject_info_def get_def example_collab_def
      cert_with_subject_def)

text \<open>
  C7, as the specification states it: against the only \<open>DNS\<close> entry \<open>*.com\<close> the
  input \<open>mail.example.com\<close> is said not to match. The code compares suffixes and
  returns true.
\<close>

theorem matches_dns_name_examples_counterexample:
  "subject_info example_collab (cert_with_subject [(''DNS'', ''*.com'')]) ''DNS'' = [''*.com''] \<and>
   subject_info example_collab (cert_with_subject [(''DNS'', ''*.com'')]) ''Name'' = [] \<and>
   matches_dns_name example_collab (cert_with_subject [(''DNS'', ''*.com'')]) ''mail.example.com''"
  by (simp add: matches_dns_name_def subject_info_def get_def example_collab_def
      cert_with_subject_def compare_def)

text \<open>
  C7, amended: \<open>mail.example.com\<close> matches a certificate whose only \<open>DNS\<close> entry is
  \<open>*.example.com\<close>, and also one whose only \<open>DNS\<close> entry is \<open>*.com\<close>; the empty
  input matches no certificate; \<open>example.com\<close> matches a certificate whose only \<open>DNS\<close>
  entry is \<open>example.com\<close>.
\<close>

theorem matches_dns_name_examples:
  "(subject_info c cert ''DNS'' = [''*.example.com''] \<longrightarrow>
      matches_dns_name c cert ''mail.example.com'') \<and>
   (subject_info c cert ''DNS'' = [''*.com''] \<longrightarrow>
      matches_dns_name c cert ''mail.example.com'') \<and>
   \<not> matches_dns_name c cert '''' \<and>
   (subject_info c cert ''DNS'' = [''example.com''] \<longrightarrow>
      matches_dns_name c cert ''example.com'')"
  by (simp add: matches_dns_name_def compare_def)

theorem matches_dns_name_examples_witness:
  "matches_dns_name example_collab (cert_with_subject [(''DNS'', ''*.example.com'')])
     ''mail.example.com'' \<and>
   matches_dns_name example_collab (cert_with_subject [(''DNS'', ''*.com'')])
     ''mail.example.com'' \<and>
   matches_dns_name example_collab (cert_with_subject [(''DNS'', ''example.com'')])
     ''example.com''"
proof -
  have a: "subject_info example_collab (cert_with_subject [(''DNS'', ''*.example.com'')]) ''DNS''
      = [''*.example.com'']"
    and b: "subject_info example_collab (cert_with_subject [(''DNS'', ''*.com'')]) ''DNS''
      = [''*.com'']"
    and d: "subject_info example_collab (cert_with_subject [(''DNS'', ''example.com'')]) ''DNS''
      = [''example.com'']"
    by (simp_all add: subject_info_def get_def example_collab_def cert_with_subject_def)
  from a b d show ?thesis
    using matches_dns_name_examples [of example_collab "cert_with_subject [(''DNS'', ''*.example.com'')]"]
      matches_dns_name_examples [of example_collab "cert_with_subject [(''DNS'', ''*.com'')]"]
      matches_dns_name_examples [of example_collab "cert_with_subject [(''DNS'', ''example.com'')]"]
    by blast
qed

text \<open>
  C10: a stored candidate of at most two characters never takes the wildcard branch.
  Removing such a candidate from the list changes the result only when the candidate
  equals the input; and when every \<open>DNS\<close> and \<open>Name\<close> entry is that short, the
  certificate matches exactly the non-empty inputs that equal one of the entries.
\<close>

theorem short_candidate_exact_only:
  "(length cn \<le> 2 \<longrightarrow>
      cert_subject_dns_match name (xs @ cn # ys) =
        (cn = name \<or> cert_subject_dns_match name (xs @ ys))) \<and>
   ((\<forall>cn \<in> set (subject_info c cert ''DNS'') \<union> set (subject_info c cert ''Name'').
        length cn \<le> 2) \<longrightarrow>
      matches_dns_name c cert name =
        (name \<noteq> '''' \<and>
         name \<in> set (subject_info c cert ''DNS'') \<union> set (subject_info c cert ''Name'')))"
proof (intro conjI impI)
  assume "length cn \<le> 2"
  then show "cert_subject_dns_match name (xs @ cn # ys) =
      (cn = name \<or> cert_subject_dns_match name (xs @ ys))"
    unfolding cert_subject_dns_match_iff by auto
next
  assume "\<forall>cn \<in> set (subject_info c cert ''DNS'') \<union> set (subject_info c cert ''Name'').
      length cn \<le> 2"
  then show "matches_dns_name c cert name =
      (name \<noteq> '''' \<and>
       name \<in> set (subject_info c cert ''DNS'') \<union> set (subject_info c cert ''Name''))"
    by (simp add: matches_dns_name_def short_names_match)
qed

theorem short_candidate_exact_only_witness:
  "\<not> cert_subject_dns_match ''a.'' [''x'', ''*.'', ''y''] \<and>
   cert_subject_dns_match ''*.'' [''x'', ''*.'', ''y''] \<and>
   \<not> matches_dns_name example_collab (cert_with_subject [(''DNS'', ''*''), (''DNS'', ''*.'')]) ''ab.'' \<and>
   matches_dns_name example_collab (cert_with_subject [(''DNS'', ''*''), (''DNS'', ''*.'')]) ''*''"
proof -
  let ?cert = "cert_with_subject [(''DNS'', ''*''), (''DNS'', ''*.'')]"
  have len: "length ''*.'' \<le> 2" by simp
  have dns: "subject_info example_collab ?cert ''DNS'' = [''*'', ''*.'']"
    and cn: "subject_info example_collab ?cert ''Name'' = []"
    by (simp_all add: subject_info_def get_def example_collab_def cert_with_subject_def)
  have short: "\<forall>cn \<in> set (subject_info example_collab ?cert ''DNS'') \<union>
      set (subject_info example_collab ?cert ''Name''). length cn \<le> 2"
    by (simp add: dns cn)
  have list_a: "\<not> cert_subject_dns_match ''a.'' [''x'', ''*.'', ''y'']"
    using short_candidate_exact_only [where cn = "''*.''" and name = "''a.''" and xs = "[''x'']"
        and ys = "[''y'']" and c = example_collab and cert = ?cert] len
    by simp
  have list_b: "cert_subject_dns_match ''*.'' [''x'', ''*.'', ''y'']"
    using short_candidate_exact_only [where cn = "''*.''" and name = "''*.''" and xs = "[''x'']"
        and ys = "[''y'']" and c = example_collab and cert = ?cert] len
    by simp
  have cert_a: "\<not> matches_dns_name example_collab ?cert ''ab.''"
    using short_candidate_exact_only [where cn = "''*.''" and name = "''ab.''" and xs = "[]"
        and ys = "[]" and c = example_collab and cert = ?cert] short
    by (simp add: dns cn)
  have cert_b: "matches_dns_name example_collab ?cert ''*''"
    using short_candidate_exact_only [where cn = "''*.''" and name = "''*''" and xs = "[]"
        and ys = "[]" and c = example_collab and cert = ?cert] short
    by (simp add: dns cn)
  from list_a list_b cert_a cert_b show ?thesis by blast
qed

section \<open>Properties of equality and rendering\<close>

text \<open>The definitions that evaluate the concrete inputs.\<close>

lemmas example_eval =
  example_cert_def example_tbs_def X509_Certificate_ctor_def force_decode_def
  example_collab_def example_algo_def X509_DN_eq_def contents_def apply_extensions_def
  example_decode_extensions_def contents_to_def store_fields_def Let_def add_u32bit_def
  add_memvec_def default_path_limit_def is_CA_cert_def constraints_def get1_u32bit_def
  get_def to_u32bit_def char2digit_def std_to_string.simps has_value_def x509_version_def
  digit_char_def subject_entries_def has_extensions_def

lemmas render_eval =
  to_string_def start_time_def end_time_def get1_def serial_number_def authority_key_id_def
  subject_key_id_def subject_public_key_def get1_memvec_def subject_info_def issuer_info_def
  policies_def ex_constraints_def lookup_oids_def dn_fields_def name_lines_def
  constraints_lines_def example_hex_encode_def hex_digit_def hex_value_def

lemma MemoryRegion_eq_iff: "MemoryRegion_eq a b = (a = b)"
  by (auto simp: MemoryRegion_eq_def same_mem_def)

text \<open>
  C8: two certificates compare equal exactly when their signature bytes, signature
  algorithms, self-signed flags, issuer stores and subject stores are equal; the signed
  body takes no part in the comparison; and \<open>operator!=\<close> is the negation of
  \<open>operator==\<close>.
\<close>

theorem X509_Certificate_eq_iff:
  "X509_Certificate_eq a b =
     (sig a = sig b \<and> sig_algo a = sig_algo b \<and> self_signed a = self_signed b \<and>
      issuer a = issuer b \<and> subject a = subject b) \<and>
   X509_Certificate_eq (a\<lparr> tbs_bits := x \<rparr>) (b\<lparr> tbs_bits := y \<rparr>) = X509_Certificate_eq a b \<and>
   X509_Certificate_neq a b = (\<not> X509_Certificate_eq a b)"
  by (simp add: X509_Certificate_eq_def X509_Certificate_neq_def MemoryRegion_eq_iff)

theorem X509_Certificate_eq_iff_witness:
  "X509_Certificate_eq (cert_with_subject [(''DNS'', ''example.com'')])
     ((cert_with_subject [(''DNS'', ''example.com'')])\<lparr> tbs_bits := [48, 0] \<rparr>) \<and>
   X509_Certificate_neq (cert_with_subject [(''DNS'', ''example.com'')])
     ((cert_with_subject [(''DNS'', ''example.com'')])\<lparr> sig := [1] \<rparr>)"
  using X509_Certificate_eq_iff [of "cert_with_subject [(''DNS'', ''example.com'')]"
      "cert_with_subject [(''DNS'', ''example.com'')]" "[]" "[48, 0]"]
    X509_Certificate_eq_iff [of "cert_with_subject [(''DNS'', ''example.com'')]"
      "(cert_with_subject [(''DNS'', ''example.com'')])\<lparr> sig := [1] \<rparr>"]
  by (simp add: cert_with_subject_def)

lemma eq_same_queries:
  assumes "X509_Certificate_eq a b"
  shows "sig_algo a = sig_algo b" and "subject a = subject b" and "issuer a = issuer b"
  using assms by (simp_all add: X509_Certificate_eq_def)

text \<open>
  C9: for fixed collaborators, two certificates that compare equal under
  \<open>operator==\<close> are rendered to the same text, or raise the same error.
\<close>

theorem to_string_deterministic:
  "X509_Certificate_eq a b \<Longrightarrow> to_string c a = to_string c b"
proof -
  assume eq: "X509_Certificate_eq a b"
  note same = eq_same_queries [OF eq]
  have q: "x509_version a = x509_version b" "start_time a = start_time b"
    "end_time a = end_time b" "constraints c a = constraints c b"
    "serial_number c a = serial_number c b" "authority_key_id c a = authority_key_id c b"
    "subject_key_id c a = subject_key_id c b" "subject_public_key c a = subject_public_key c b"
    "subject_info c a = subject_info c b" "issuer_info c a = issuer_info c b"
    "policies c a = policies c b" "ex_constraints c a = ex_constraints c b"
    by (simp_all add: same x509_version_def start_time_def end_time_def constraints_def
        serial_number_def authority_key_id_def subject_key_id_def subject_public_key_def
        subject_info_def issuer_info_def policies_def ex_constraints_def fun_eq_iff)
  show ?thesis
    unfolding to_string_def q same(1) ..
qed

theorem to_string_deterministic_witness:
  "\<exists>cert. example_cert 2 [1, 4, 0] = Inr cert \<and>
     tbs_bits cert \<noteq> [48, 1, 0] \<and>
     X509_Certificate_eq cert (cert\<lparr> tbs_bits := [48, 1, 0] \<rparr>) \<and>
     to_string example_collab cert =
       Inr ''Subject Name: Root\<newline>Issuer Name: Root\<newline>Version: 3\<newline>Not valid before: 2010/01/01 00:00:00 UTC\<newline>Not valid after: 2020/01/01 00:00:00 UTC\<newline>Constraints:\<newline>   Cert Sign\<newline>Signature algorithm: 1.2.840.113549.1.1.5\<newline>Serial number: 1234\<newline>Public Key:\<newline>-----BEGIN PUBLIC KEY-----\<newline>3003010203\<newline>-----END PUBLIC KEY-----\<newline>'' \<and>
     to_string example_collab (cert\<lparr> tbs_bits := [48, 1, 0] \<rparr>) =
       Inr ''Subject Name: Root\<newline>Issuer Name: Root\<newline>Version: 3\<newline>Not valid before: 2010/01/01 00:00:00 UTC\<newline>Not valid after: 2020/01/01 00:00:00 UTC\<newline>Constraints:\<newline>   Cert Sign\<newline>Signature algorithm: 1.2.840.113549.1.1.5\<newline>Serial number: 1234\<newline>Public Key:\<newline>-----BEGIN PUBLIC KEY-----\<newline>3003010203\<newline>-----END PUBLIC KEY-----\<newline>''"
proof -
  let ?cert = "\<lparr> sig_algo = \<lparr> oid = ''1.2.840.113549.1.1.5'', parameters = [5, 0] \<rparr>,
      tbs_bits = [48, 0], sig = [1, 2, 3, 4], self_signed = True,
      subject =
        [(''X509.Certificate.end'', ''2020/01/01 00:00:00 UTC''),
         (''X509.Certificate.public_key'',
          ''-----BEGIN PUBLIC KEY-----\<newline>3003010203\<newline>-----END PUBLIC KEY-----\<newline>''),
         (''X509.Certificate.serial'', ''1234''),
         (''X509.Certificate.start'', ''2010/01/01 00:00:00 UTC''),
         (''X509.Certificate.v2.key_id'', []),
         (''X509.Certificate.version'', ''2''),
         (''X509v3.BasicConstraints.is_ca'', ''1''),
         (''X509v3.BasicConstraints.path_constraint'', ''0''),
         (''X509v3.KeyUsage'', ''1024''), (''X520.CommonName'', ''Root''),
         (''X520.Organization'', ''Example'')],
      issuer =
        [(''X509.Certificate.v2.key_id'', []),
         (''X520.CommonName'', ''Root''),
         (''X520.Organization'', ''Example'')] \<rparr>"
  have decoded: "example_cert 2 [1, 4, 0] = Inr ?cert"
    by (simp add: example_eval bytes_be.simps example_hex_encode_def hex_digit_def
        char_of_def bit_0)
  have differ: "tbs_bits ?cert \<noteq> [48, 1, 0]"
    by simp
  have eq: "X509_Certificate_eq ?cert (?cert\<lparr> tbs_bits := [48, 1, 0] \<rparr>)"
    by (simp add: X509_Certificate_eq_def MemoryRegion_eq_def same_mem_def)
  have rendered: "to_string example_collab ?cert =
       Inr ''Subject Name: Root\<newline>Issuer Name: Root\<newline>Version: 3\<newline>Not valid before: 2010/01/01 00:00:00 UTC\<newline>Not valid after: 2020/01/01 00:00:00 UTC\<newline>Constraints:\<newline>   Cert Sign\<newline>Signature algorithm: 1.2.840.113549.1.1.5\<newline>Serial number: 1234\<newline>Public Key:\<newline>-----BEGIN PUBLIC KEY-----\<newline>3003010203\<newline>-----END PUBLIC KEY-----\<newline>''"
    by (simp add: render_eval example_eval char_of_def bit_0)
  from to_string_deterministic [OF eq, of example_collab] rendered
  have "to_string example_collab (?cert\<lparr> tbs_bits := [48, 1, 0] \<rparr>) =
       Inr ''Subject Name: Root\<newline>Issuer Name: Root\<newline>Version: 3\<newline>Not valid before: 2010/01/01 00:00:00 UTC\<newline>Not valid after: 2020/01/01 00:00:00 UTC\<newline>Constraints:\<newline>   Cert Sign\<newline>Signature algorithm: 1.2.840.113549.1.1.5\<newline>Serial number: 1234\<newline>Public Key:\<newline>-----BEGIN PUBLIC KEY-----\<newline>3003010203\<newline>-----END PUBLIC KEY-----\<newline>''"
    by (simp only:)
  with decoded differ eq rendered show ?thesis by blast
qed

section \<open>Properties of the decoder\<close>

lemma add_all_append: "add_all (xs @ ys) s = add_all ys (add_all xs s)"
  by (induction xs arbitrary: s) auto

lemma apply_extensions_Inr:
  assumes "apply_extensions c t this = Inr this'"
  shows "subject this' =
      add_all (if has_extensions c t
               then (case decode_extensions c (ber_value (v3_exts_data t)) of
                       Inl e \<Rightarrow> [] | Inr extensions \<Rightarrow> fst extensions)
               else []) (subject this)"
    and "self_signed this' = self_signed this"
    and "sig_algo this' = sig_algo this"
  using assms
  by (auto simp: apply_extensions_def has_extensions_def contents_to_def
      split: if_splits sum.splits)

lemma apply_extensions_well_formed:
  assumes "if has_extensions c t then \<not> isl (decode_extensions c (ber_value (v3_exts_data t)))
       else type_tag (v3_exts_data t) = NO_OBJECT c"
  shows "\<exists>this'. apply_extensions c t this = Inr this'"
  using assms
  by (auto simp: apply_extensions_def has_extensions_def split: if_splits sum.splits)

lemma store_fields_get_other:
  assumes "key \<noteq> ''X509.Certificate.version''" "key \<noteq> ''X509.Certificate.serial''"
    "key \<noteq> ''X509.Certificate.start''" "key \<noteq> ''X509.Certificate.end''"
    "key \<noteq> ''X509.Certificate.v2.key_id''" "key \<noteq> ''X509.Certificate.public_key''"
  shows "get (subject (store_fields c t this)) key = get (subject this) key"
  using assms
  by (simp add: store_fields_def Let_def add_u32bit_def add_memvec_def get_add_other)

lemma store_fields_get_version:
  assumes "get (subject this) ''X509.Certificate.version'' = []"
  shows "get (subject (store_fields c t this)) ''X509.Certificate.version''
      = [std_to_string (unat (of_nat (version t) :: u32bit))]"
  using assms
  by (simp add: store_fields_def Let_def add_u32bit_def add_memvec_def get_add_other get_add_absent)

lemma store_fields_same:
  "self_signed (store_fields c t this) = self_signed this"
  "sig_algo (store_fields c t this) = sig_algo this"
  by (simp_all add: store_fields_def Let_def)

lemma store_fields_x509_version:
  assumes "get (subject this) ''X509.Certificate.version'' = []"
  shows "x509_version (store_fields c t this) = Inr (of_nat (version t) + 1)"
  by (simp add: x509_version_def get1_u32bit_def store_fields_get_version [OF assms] to_u32bit_unat)

lemma subject_entries_store:
  assumes "apply_extensions c t this = Inr this'"
    and "subject this = add_all (contents (dn_subject t)) []"
  shows "subject this' = add_all (subject_entries c t) []"
  using apply_extensions_Inr(1) [OF assms(1)] assms(2)
  by (simp add: subject_entries_def add_all_append)

lemma ctor_Inr:
  assumes "X509_Certificate_ctor c algo tbs signature t = Inr cert"
  obtains this4 where "version t \<le> 2" and "algo = sig_algo_inner t"
    and "subject this4 = add_all (subject_entries c t) []"
    and "self_signed this4 = X509_DN_eq (dn_subject t) (dn_issuer t)"
    and "default_path_limit c (store_fields c t this4) = Inr cert"
proof -
  let ?this3 = "\<lparr> sig_algo = algo, tbs_bits = tbs, sig = signature,
      self_signed = X509_DN_eq (dn_subject t) (dn_issuer t),
      subject = add_all (contents (dn_subject t)) [],
      issuer = add_all (contents (dn_issuer t)) [] \<rparr>"
  from assms have v: "version t \<le> 2" and a: "algo = sig_algo_inner t"
    by (auto simp: X509_Certificate_ctor_def force_decode_def split: if_splits)
  from assms v a obtain this4 where ext: "apply_extensions c t ?this3 = Inr this4"
    and rest: "default_path_limit c (store_fields c t this4) = Inr cert"
    by (auto simp: X509_Certificate_ctor_def force_decode_def Let_def split: if_splits sum.splits)
  have "subject this4 = add_all (subject_entries c t) []"
    by (rule subject_entries_store [OF ext]) simp
  moreover have "self_signed this4 = X509_DN_eq (dn_subject t) (dn_issuer t)"
    using apply_extensions_Inr(2) [OF ext] by simp
  ultimately show thesis
    using that v a rest by blast
qed

lemma ctor_well_formed:
  assumes "version t \<le> 2" and "otherwise_well_formed c algo t"
  obtains this4 where "subject this4 = add_all (subject_entries c t) []"
    and "X509_Certificate_ctor c algo tbs signature t
      = default_path_limit c (store_fields c t this4)"
proof -
  let ?this3 = "\<lparr> sig_algo = algo, tbs_bits = tbs, sig = signature,
      self_signed = X509_DN_eq (dn_subject t) (dn_issuer t),
      subject = add_all (contents (dn_subject t)) [],
      issuer = add_all (contents (dn_issuer t)) [] \<rparr>"
  from assms(2) have wf: "algo = sig_algo_inner t" "type_tag (public_key t) = SEQUENCE c"
    "class_tag (public_key t) = CONSTRUCTED c" "\<not> more_items t"
    and ext_ok: "if has_extensions c t then \<not> isl (decode_extensions c (ber_value (v3_exts_data t)))
       else type_tag (v3_exts_data t) = NO_OBJECT c"
    by (simp_all add: otherwise_well_formed_def)
  from apply_extensions_well_formed [OF ext_ok] obtain this4
    where ext: "apply_extensions c t ?this3 = Inr this4" by blast
  have "subject this4 = add_all (subject_entries c t) []"
    by (rule subject_entries_store [OF ext]) simp
  moreover have "X509_Certificate_ctor c algo tbs signature t
      = default_path_limit c (store_fields c t this4)"
    using assms(1) wf ext by (simp add: X509_Certificate_ctor_def force_decode_def Let_def)
  ultimately show thesis using that by blast
qed

lemma get1_u32bit_numbers:
  assumes "\<forall>val \<in> set (get s key). is_number val"
  shows "\<exists>m. get1_u32bit s key d = Inr m"
proof (cases "get s key")
  case Nil
  then show ?thesis by (simp add: get1_u32bit_def)
next
  case (Cons val vals)
  with assms have "is_number val" by simp
  from is_number_to_u32bit [OF this] Cons show ?thesis by (simp add: get1_u32bit_def)
qed

lemma is_CA_cert_numbers:
  assumes "\<forall>val \<in> set (get (subject this) ''X509v3.BasicConstraints.is_ca''). is_number val"
    and "\<forall>val \<in> set (get (subject this) ''X509v3.KeyUsage''). is_number val"
  shows "\<exists>ca. is_CA_cert c this = Inr ca"
proof -
  from get1_u32bit_numbers [OF assms(1)] obtain flag
    where "get1_u32bit (subject this) ''X509v3.BasicConstraints.is_ca'' 0 = Inr flag" by blast
  moreover from get1_u32bit_numbers [OF assms(2)] obtain k
    where "constraints c this = Inr k" unfolding constraints_def by blast
  ultimately show ?thesis by (auto simp: is_CA_cert_def)
qed

lemma constraints_add_path_limit:
  "constraints c (this\<lparr> subject := add_u32bit ''X509v3.BasicConstraints.path_constraint'' l (subject this) \<rparr>)
     = constraints c this"
  by (simp add: constraints_def get1_u32bit_def add_u32bit_def get_add_other)

lemma is_CA_cert_add_path_limit:
  "is_CA_cert c (this\<lparr> subject := add_u32bit ''X509v3.BasicConstraints.path_constraint'' l (subject this) \<rparr>)
     = is_CA_cert c this"
  unfolding is_CA_cert_def constraints_add_path_limit
  by (simp add: get1_u32bit_def add_u32bit_def get_add_other)

lemma x509_version_add_path_limit:
  "x509_version (this\<lparr> subject := add_u32bit ''X509v3.BasicConstraints.path_constraint'' l (subject this) \<rparr>)
     = x509_version this"
  by (simp add: x509_version_def get1_u32bit_def add_u32bit_def get_add_other)

lemma default_path_limit_Inr:
  assumes "default_path_limit c this = Inr cert"
  shows "self_signed cert = self_signed this"
    and "is_CA_cert c cert = is_CA_cert c this"
    and "x509_version cert = x509_version this"
    and "\<exists>ca. is_CA_cert c this = Inr ca \<and>
      (if ca \<and> \<not> has_value (subject this) ''X509v3.BasicConstraints.path_constraint''
       then \<exists>v. x509_version this = Inr v \<and>
         cert = this\<lparr> subject := add_u32bit ''X509v3.BasicConstraints.path_constraint''
           (if v < 3 then NO_CERT_PATH_LIMIT c else 0) (subject this) \<rparr>
       else cert = this)"
proof -
  from assms obtain ca where ca: "is_CA_cert c this = Inr ca"
    by (cases "is_CA_cert c this") (simp_all add: default_path_limit_def)
  show step: "\<exists>ca. is_CA_cert c this = Inr ca \<and>
      (if ca \<and> \<not> has_value (subject this) ''X509v3.BasicConstraints.path_constraint''
       then \<exists>v. x509_version this = Inr v \<and>
         cert = this\<lparr> subject := add_u32bit ''X509v3.BasicConstraints.path_constraint''
           (if v < 3 then NO_CERT_PATH_LIMIT c else 0) (subject this) \<rparr>
       else cert = this)"
    using assms ca
    by (cases "x509_version this") (auto simp: default_path_limit_def Let_def split: if_splits)
  from step show "self_signed cert = self_signed this"
    by (auto split: if_splits)
  from step show "is_CA_cert c cert = is_CA_cert c this"
    by (auto simp: is_CA_cert_add_path_limit split: if_splits)
  from step show "x509_version cert = x509_version this"
    by (auto simp: x509_version_add_path_limit split: if_splits)
qed

lemma default_path_limit_total:
  assumes "is_CA_cert c this = Inr ca" and "x509_version this = Inr v"
  shows "\<exists>cert. default_path_limit c this = Inr cert"
  using assms by (simp add: default_path_limit_def Let_def)

lemma entries_absent:
  assumes "subject this = add_all es []"
  shows "(get (subject this) key = []) = (key \<notin> fst ` set es)"
  by (simp add: assms get_add_all_Nil get_empty)

lemma entries_values:
  assumes "subject this = add_all es []"
  shows "set (get (subject this) key) = {val. (key, val) \<in> set es}"
  by (simp add: assms set_get_add_all get_empty)

lemma ctor_total:
  assumes v: "version t \<le> 2" and wf: "otherwise_well_formed c algo t"
  shows "\<exists>cert. X509_Certificate_ctor c algo tbs signature t = Inr cert \<and>
    x509_version cert = Inr (of_nat (version t) + 1)"
proof -
  from ctor_well_formed [OF v wf] obtain this4
    where s4: "subject this4 = add_all (subject_entries c t) []"
      and ctor: "X509_Certificate_ctor c algo tbs signature t
        = default_path_limit c (store_fields c t this4)"
    by blast
  let ?this5 = "store_fields c t this4"
  from wf have entries: "\<forall>e \<in> set (subject_entries c t).
      fst e \<noteq> ''X509.Certificate.version'' \<and>
      (fst e = ''X509v3.BasicConstraints.is_ca'' \<or> fst e = ''X509v3.KeyUsage''
         \<longrightarrow> is_number (snd e))"
    by (simp add: otherwise_well_formed_def)
  then have "''X509.Certificate.version'' \<notin> fst ` set (subject_entries c t)"
    by force
  then have "get (subject this4) ''X509.Certificate.version'' = []"
    by (simp add: entries_absent [OF s4])
  then have ver: "x509_version ?this5 = Inr (of_nat (version t) + 1)"
    by (rule store_fields_x509_version)
  have "get (subject ?this5) ''X509v3.BasicConstraints.is_ca''
      = get (subject this4) ''X509v3.BasicConstraints.is_ca''"
    by (rule store_fields_get_other) simp_all
  then have n1: "\<forall>val \<in> set (get (subject ?this5) ''X509v3.BasicConstraints.is_ca''). is_number val"
    using entries by (force simp: entries_values [OF s4])
  have "get (subject ?this5) ''X509v3.KeyUsage'' = get (subject this4) ''X509v3.KeyUsage''"
    by (rule store_fields_get_other) simp_all
  then have n2: "\<forall>val \<in> set (get (subject ?this5) ''X509v3.KeyUsage''). is_number val"
    using entries by (force simp: entries_values [OF s4])
  from is_CA_cert_numbers [OF n1 n2] obtain ca where "is_CA_cert c ?this5 = Inr ca" by blast
  from default_path_limit_total [OF this ver] obtain cert
    where cert: "default_path_limit c ?this5 = Inr cert" by blast
  from default_path_limit_Inr(3) [OF cert] ver ctor cert show ?thesis by simp
qed

text \<open>
  C3: an input whose version is 0, 1 or 2 and that is otherwise well-formed decodes, and
  \<open>x509_version\<close> of the certificate is the version plus one; an input with any
  other version fails with a decoding error.
\<close>

theorem decode_version:
  "(version t \<le> 2 \<and> otherwise_well_formed c algo t \<longrightarrow>
      (\<exists>cert. X509_Certificate_ctor c algo tbs signature t = Inr cert \<and>
         x509_version cert = Inr (of_nat (version t) + 1))) \<and>
   (2 < version t \<longrightarrow>
      X509_Certificate_ctor c algo tbs signature t =
        Inl (Decoding_Error (''Unknown X.509 cert version '' @ std_to_string (version t))))"
  using ctor_total [of t c algo tbs signature]
  by (simp add: X509_Certificate_ctor_def force_decode_def)

theorem decode_version_witness:
  "(\<exists>cert. example_cert 2 [1] = Inr cert \<and> x509_version cert = Inr 3) \<and>
   example_cert 3 [1] = Inl (Decoding_Error ''Unknown X.509 cert version 3'')"
proof -
  have wf: "otherwise_well_formed example_collab example_algo (example_tbs 2 [1])"
    by code_simp
  have v: "version (example_tbs 2 [1]) = 2" "version (example_tbs 3 [1]) = 3"
    by (simp_all add: example_tbs_def)
  have s: "std_to_string 3 = ''3''"
    by code_simp
  show ?thesis
    using decode_version [of "example_tbs 2 [1]" example_collab example_algo "[48, 0]" "[1, 2, 3, 4]"]
      decode_version [of "example_tbs 3 [1]" example_collab example_algo "[48, 0]" "[1, 2, 3, 4]"]
      wf
    by (simp add: v s example_cert_def)
qed

lemma to_u32bit_from_Inl:
  "to_u32bit_from n val = Inl e \<Longrightarrow> e = Decoding_Error ''to_u32bit: not a number''"
  by (induction val arbitrary: n) (auto split: option.splits)

lemma get1_u32bit_Inl:
  "get1_u32bit s key d = Inl e \<Longrightarrow> e = Decoding_Error ''to_u32bit: not a number''"
  by (auto simp: get1_u32bit_def to_u32bit_def split: list.splits dest: to_u32bit_from_Inl)

lemma default_path_limit_Inl:
  assumes "default_path_limit c this = Inl e"
  shows "e = Decoding_Error ''to_u32bit: not a number''"
proof (cases "is_CA_cert c this")
  case (Inl e')
  then have "e' = Decoding_Error ''to_u32bit: not a number''"
    by (auto simp: is_CA_cert_def constraints_def split: sum.splits if_splits dest: get1_u32bit_Inl)
  with Inl assms show ?thesis by (simp add: default_path_limit_def)
next
  case (Inr ca)
  with assms have "x509_version this = Inl e"
    by (cases "x509_version this") (auto simp: default_path_limit_def Let_def split: if_splits)
  then show ?thesis
    by (auto simp: x509_version_def split: sum.splits dest: get1_u32bit_Inl)
qed

lemma apply_extensions_Inl:
  assumes "apply_extensions c t this = Inl (Decoding_Error msg)"
  shows "has_extensions c t \<and>
    decode_extensions c (ber_value (v3_exts_data t)) = Inl (Decoding_Error msg)"
  using assms
  by (auto simp: apply_extensions_def has_extensions_def split: if_splits sum.splits)

text \<open>
  C4: when the signature algorithm of the envelope differs from the one inside the
  signed body, decoding fails with a decoding error, which for a known version is the
  error of this check. When the two agree, an otherwise well-formed input decodes, and
  the error of this check can only come from the extension processor raising that very
  error.
\<close>

theorem decode_algorithm_mismatch:
  "(algo \<noteq> sig_algo_inner t \<longrightarrow>
      (\<exists>msg. X509_Certificate_ctor c algo tbs signature t = Inl (Decoding_Error msg))) \<and>
   (algo \<noteq> sig_algo_inner t \<and> version t \<le> 2 \<longrightarrow>
      X509_Certificate_ctor c algo tbs signature t =
        Inl (Decoding_Error ''Algorithm identifier mismatch'')) \<and>
   (algo = sig_algo_inner t \<and> version t \<le> 2 \<and> otherwise_well_formed c algo t \<longrightarrow>
      (\<exists>cert. X509_Certificate_ctor c algo tbs signature t = Inr cert)) \<and>
   (algo = sig_algo_inner t \<and>
    X509_Certificate_ctor c algo tbs signature t =
      Inl (Decoding_Error ''Algorithm identifier mismatch'') \<longrightarrow>
      has_extensions c t \<and>
      decode_extensions c (ber_value (v3_exts_data t)) =
        Inl (Decoding_Error ''Algorithm identifier mismatch''))"
proof (intro conjI impI)
  assume "algo \<noteq> sig_algo_inner t"
  then show "\<exists>msg. X509_Certificate_ctor c algo tbs signature t = Inl (Decoding_Error msg)"
    by (simp add: X509_Certificate_ctor_def force_decode_def)
next
  assume "algo \<noteq> sig_algo_inner t \<and> version t \<le> 2"
  then show "X509_Certificate_ctor c algo tbs signature t =
      Inl (Decoding_Error ''Algorithm identifier mismatch'')"
    by (simp add: X509_Certificate_ctor_def force_decode_def)
next
  assume "algo = sig_algo_inner t \<and> version t \<le> 2 \<and> otherwise_well_formed c algo t"
  then show "\<exists>cert. X509_Certificate_ctor c algo tbs signature t = Inr cert"
    using ctor_total [of t c algo tbs signature] by blast
next
  assume a: "algo = sig_algo_inner t \<and>
    X509_Certificate_ctor c algo tbs signature t =
      Inl (Decoding_Error ''Algorithm identifier mismatch'')"
  let ?this3 = "\<lparr> sig_algo = algo, tbs_bits = tbs, sig = signature,
      self_signed = X509_DN_eq (dn_subject t) (dn_issuer t),
      subject = add_all (contents (dn_subject t)) [],
      issuer = add_all (contents (dn_issuer t)) [] \<rparr>"
  from a have "apply_extensions c t ?this3 = Inl (Decoding_Error ''Algorithm identifier mismatch'')"
    by (auto simp: X509_Certificate_ctor_def force_decode_def Let_def
        split: if_splits sum.splits dest: default_path_limit_Inl)
  from apply_extensions_Inl [OF this]
  show "has_extensions c t"
    and "decode_extensions c (ber_value (v3_exts_data t)) =
      Inl (Decoding_Error ''Algorithm identifier mismatch'')"
    by simp_all
qed

theorem decode_algorithm_mismatch_witness:
  "example_cert 2 [1] \<noteq> Inl (Decoding_Error ''Algorithm identifier mismatch'') \<and>
   (\<exists>cert. example_cert 2 [1] = Inr cert) \<and>
   X509_Certificate_ctor example_collab (example_algo\<lparr> parameters := [] \<rparr>) [48, 0] [1, 2, 3, 4]
     (example_tbs 2 [1]) = Inl (Decoding_Error ''Algorithm identifier mismatch'')"
proof -
  have wf: "otherwise_well_formed example_collab example_algo (example_tbs 2 [1])"
    by code_simp
  have v: "version (example_tbs 2 [1]) \<le> 2"
    and same: "example_algo = sig_algo_inner (example_tbs 2 [1])"
    and other: "example_algo\<lparr> parameters := [] \<rparr> \<noteq> sig_algo_inner (example_tbs 2 [1])"
    and ext: "decode_extensions example_collab (ber_value (v3_exts_data (example_tbs 2 [1])))
      \<noteq> Inl (Decoding_Error ''Algorithm identifier mismatch'')"
    by (simp_all add: example_tbs_def example_algo_def example_collab_def
        example_decode_extensions_def)
  show ?thesis
    using decode_algorithm_mismatch [of example_algo "example_tbs 2 [1]" example_collab
        "[48, 0]" "[1, 2, 3, 4]"]
      decode_algorithm_mismatch [of "example_algo\<lparr> parameters := [] \<rparr>" "example_tbs 2 [1]"
        example_collab "[48, 0]" "[1, 2, 3, 4]"]
      wf v same other ext
    unfolding example_cert_def by blast
qed

lemma ctor_self_signed:
  assumes "X509_Certificate_ctor c algo tbs signature t = Inr cert"
  shows "self_signed cert = (mset (dn_subject t) = mset (dn_issuer t))"
proof -
  from ctor_Inr [OF assms] obtain this4
    where "self_signed this4 = X509_DN_eq (dn_subject t) (dn_issuer t)"
      and "default_path_limit c (store_fields c t this4) = Inr cert"
    by blast
  with default_path_limit_Inr(1) [of c "store_fields c t this4" cert]
  show ?thesis by (simp add: store_fields_same X509_DN_eq_def)
qed

text \<open>
  C5: for a decoded certificate the self-signed flag is true exactly when the subject
  name and the issuer name are equal as multisets of pairs; two inputs whose names have
  the same pairs in another order give the same flag.
\<close>

theorem self_signed_iff:
  "(X509_Certificate_ctor c algo tbs signature t = Inr cert \<longrightarrow>
      self_signed cert = (mset (dn_subject t) = mset (dn_issuer t))) \<and>
   (X509_Certificate_ctor c algo tbs signature t = Inr cert \<and>
    X509_Certificate_ctor c' algo' tbs' signature' t' = Inr cert' \<and>
    mset (dn_subject t') = mset (dn_subject t) \<and> mset (dn_issuer t') = mset (dn_issuer t) \<longrightarrow>
      self_signed cert' = self_signed cert)"
  using ctor_self_signed [of c algo tbs signature t cert]
    ctor_self_signed [of c' algo' tbs' signature' t' cert']
  by auto

theorem self_signed_iff_witness:
  "(\<exists>cert. example_cert 2 [1] = Inr cert \<and> self_signed cert) \<and>
   (\<exists>cert cert'. example_cert 2 [1] = Inr cert \<and>
      X509_Certificate_ctor example_collab example_algo [48, 0] [1, 2, 3, 4]
        ((example_tbs 2 [1])\<lparr> dn_subject := rev (dn_subject (example_tbs 2 [1])) \<rparr>) = Inr cert' \<and>
      self_signed cert' = self_signed cert)"
proof -
  let ?t = "example_tbs 2 [1]"
  let ?t' = "?t\<lparr> dn_subject := rev (dn_subject ?t) \<rparr>"
  have v: "version ?t \<le> 2" "version ?t' \<le> 2"
    by (simp_all add: example_tbs_def)
  have wf: "otherwise_well_formed example_collab example_algo ?t"
    "otherwise_well_formed example_collab example_algo ?t'"
    by code_simp+
  from ctor_total [OF v(1) wf(1)] obtain cert
    where cert: "X509_Certificate_ctor example_collab example_algo [48, 0] [1, 2, 3, 4] ?t = Inr cert"
    by blast
  from ctor_total [OF v(2) wf(2)] obtain cert'
    where cert': "X509_Certificate_ctor example_collab example_algo [48, 0] [1, 2, 3, 4] ?t' = Inr cert'"
    by blast
  have names: "mset (dn_subject ?t) = mset (dn_issuer ?t)"
    "mset (dn_subject ?t') = mset (dn_subject ?t)" "mset (dn_issuer ?t') = mset (dn_issuer ?t)"
    by (simp_all add: example_tbs_def)
  from self_signed_iff [of example_collab example_algo "[48, 0]" "[1, 2, 3, 4]" ?t cert
      example_collab example_algo "[48, 0]" "[1, 2, 3, 4]" ?t' cert'] cert cert' names
  have "self_signed cert" and "self_signed cert' = self_signed cert"
    by simp_all
  with cert cert' show ?thesis
    unfolding example_cert_def by blast
qed

lemma version_word_less:
  assumes "version t \<le> 2"
  shows "((of_nat (version t) + 1 :: u32bit) < 3) = (version t < 2)"
proof -
  from assms have "version t = 0 \<or> version t = 1 \<or> version t = 2" by auto
  then show ?thesis by auto
qed

text \<open>
  C2: for a decoded certificate for which neither the subject name nor the extensions
  recorded a path limit: when the certificate is a CA (and the version key is recorded by
  the decoder alone), \<open>path_limit\<close> is the sentinel for no limit when the decoded
  version is below 2, and 0 when it is 2; when the certificate is not a CA,
  \<open>path_limit\<close> is 0.
\<close>

theorem path_limit_default:
  assumes "X509_Certificate_ctor c algo tbs signature t = Inr cert"
    and "''X509v3.BasicConstraints.path_constraint'' \<notin> fst ` set (subject_entries c t)"
  shows "(is_CA_cert c cert = Inr True \<and>
          ''X509.Certificate.version'' \<notin> fst ` set (subject_entries c t) \<longrightarrow>
            path_limit cert = Inr (if version t < 2 then NO_CERT_PATH_LIMIT c else 0)) \<and>
         (is_CA_cert c cert = Inr False \<longrightarrow> path_limit cert = Inr 0)"
proof -
  from ctor_Inr [OF assms(1)] obtain this4
    where v: "version t \<le> 2"
      and s4: "subject this4 = add_all (subject_entries c t) []"
      and d: "default_path_limit c (store_fields c t this4) = Inr cert"
    by blast
  let ?this5 = "store_fields c t this4"
  let ?pc = "''X509v3.BasicConstraints.path_constraint''"
  have "get (subject ?this5) ?pc = get (subject this4) ?pc"
    by (rule store_fields_get_other) simp_all
  with assms(2) have none: "get (subject ?this5) ?pc = []"
    by (simp add: entries_absent [OF s4])
  from default_path_limit_Inr(2,4) [OF d] obtain ca
    where same: "is_CA_cert c cert = is_CA_cert c ?this5"
      and ca: "is_CA_cert c ?this5 = Inr ca"
      and step: "if ca \<and> \<not> has_value (subject ?this5) ?pc
        then \<exists>v. x509_version ?this5 = Inr v \<and>
          cert = ?this5\<lparr> subject := add_u32bit ?pc
            (if v < 3 then NO_CERT_PATH_LIMIT c else 0) (subject ?this5) \<rparr>
        else cert = ?this5"
    by blast
  show ?thesis
  proof (intro conjI impI)
    assume "is_CA_cert c cert = Inr True \<and>
      ''X509.Certificate.version'' \<notin> fst ` set (subject_entries c t)"
    with same ca have "ca"
      and "get (subject this4) ''X509.Certificate.version'' = []"
      by (simp_all add: entries_absent [OF s4])
    from store_fields_x509_version [OF this(2)]
    have ver: "x509_version ?this5 = Inr (of_nat (version t) + 1)" .
    from step \<open>ca\<close> none ver
    have "cert = ?this5\<lparr> subject := add_u32bit ?pc
        (if (of_nat (version t) + 1 :: u32bit) < 3 then NO_CERT_PATH_LIMIT c else 0)
        (subject ?this5) \<rparr>"
      by (simp add: has_value_def)
    then have "path_limit cert =
        Inr (if (of_nat (version t) + 1 :: u32bit) < 3 then NO_CERT_PATH_LIMIT c else 0)"
      using get1_u32bit_add_u32bit [OF none] by (simp add: path_limit_def)
    then show "path_limit cert = Inr (if version t < 2 then NO_CERT_PATH_LIMIT c else 0)"
      by (simp only: version_word_less [OF v])
  next
    assume "is_CA_cert c cert = Inr False"
    with same ca have "\<not> ca" by simp
    with step have "cert = ?this5" by simp
    with none show "path_limit cert = Inr 0"
      by (simp add: path_limit_def get1_u32bit_def)
  qed
qed

theorem path_limit_default_witness:
  "(\<exists>cert. example_cert 0 [1] = Inr cert \<and> is_CA_cert example_collab cert = Inr True \<and>
      path_limit cert = Inr 0xFFFFFFF0) \<and>
   (\<exists>cert. example_cert 2 [1] = Inr cert \<and> is_CA_cert example_collab cert = Inr True \<and>
      path_limit cert = Inr 0) \<and>
   (\<exists>cert. example_cert 2 [0] = Inr cert \<and> is_CA_cert example_collab cert = Inr False \<and>
      path_limit cert = Inr 0)"
proof -
  let ?pc = "''X509v3.BasicConstraints.path_constraint''"
  let ?vk = "''X509.Certificate.version''"
  have "case example_cert 0 [1] of
      Inl e \<Rightarrow> False | Inr cert \<Rightarrow> is_CA_cert example_collab cert = Inr True"
    by (simp add: example_eval)
  then obtain cert1 where c1: "example_cert 0 [1] = Inr cert1"
    and ca1: "is_CA_cert example_collab cert1 = Inr True"
    by (auto split: sum.splits)
  have "case example_cert 2 [1] of
      Inl e \<Rightarrow> False | Inr cert \<Rightarrow> is_CA_cert example_collab cert = Inr True"
    by (simp add: example_eval)
  then obtain cert2 where c2: "example_cert 2 [1] = Inr cert2"
    and ca2: "is_CA_cert example_collab cert2 = Inr True"
    by (auto split: sum.splits)
  have "case example_cert 2 [0] of
      Inl e \<Rightarrow> False | Inr cert \<Rightarrow> is_CA_cert example_collab cert = Inr False"
    by (simp add: example_eval)
  then obtain cert3 where c3: "example_cert 2 [0] = Inr cert3"
    and ca3: "is_CA_cert example_collab cert3 = Inr False"
    by (auto split: sum.splits)
  have k1: "?pc \<notin> fst ` set (subject_entries example_collab (example_tbs 0 [1]))"
    "?vk \<notin> fst ` set (subject_entries example_collab (example_tbs 0 [1]))"
    and k2: "?pc \<notin> fst ` set (subject_entries example_collab (example_tbs 2 [1]))"
    "?vk \<notin> fst ` set (subject_entries example_collab (example_tbs 2 [1]))"
    and k3: "?pc \<notin> fst ` set (subject_entries example_collab (example_tbs 2 [0]))"
    by (simp_all add: example_eval)
  have vals: "version (example_tbs 0 [1]) = 0" "version (example_tbs 2 [1]) = 2"
    "NO_CERT_PATH_LIMIT example_collab = 0xFFFFFFF0"
    by (simp_all add: example_tbs_def example_collab_def)
  have p1: "path_limit cert1 = Inr 0xFFFFFFF0"
    using path_limit_default [OF c1 [unfolded example_cert_def] k1(1)] ca1 k1(2)
    by (simp add: vals)
  have p2: "path_limit cert2 = Inr 0"
    using path_limit_default [OF c2 [unfolded example_cert_def] k2(1)] ca2 k2(2)
    by (simp add: vals)
  have p3: "path_limit cert3 = Inr 0"
    using path_limit_default [OF c3 [unfolded example_cert_def] k3] ca3
    by simp
  from c1 ca1 p1 c2 ca2 p2 c3 ca3 p3 show ?thesis by blast
qed

section \<open>Properties of the CA predicate\<close>

text \<open>
  C1: \<open>is_CA_cert\<close> returns true exactly when the stored CA flag is set and the key
  usage is the sentinel for no recorded constraints or includes the certificate-signing
  bit. It returns false when the flag reads as zero, when the flag is set and the key
  usage is neither, and when the flag is absent; and on a decoded certificate it always
  returns one of the two.
\<close>

theorem is_CA_cert_iff:
  "(is_CA_cert c cert = Inr True) =
     (\<exists>is_ca k. get1_u32bit (subject cert) ''X509v3.BasicConstraints.is_ca'' 0 = Inr is_ca \<and>
        is_ca \<noteq> 0 \<and> constraints c cert = Inr k \<and>
        (k = NO_CONSTRAINTS c \<or> k AND KEY_CERT_SIGN c \<noteq> 0)) \<and>
   (get1_u32bit (subject cert) ''X509v3.BasicConstraints.is_ca'' 0 = Inr 0 \<longrightarrow>
      is_CA_cert c cert = Inr False) \<and>
   (get1_u32bit (subject cert) ''X509v3.BasicConstraints.is_ca'' 0 = Inr flag \<and> flag \<noteq> 0 \<and>
    constraints c cert = Inr usage \<longrightarrow>
      is_CA_cert c cert = Inr (usage = NO_CONSTRAINTS c \<or> usage AND KEY_CERT_SIGN c \<noteq> 0)) \<and>
   (get (subject cert) ''X509v3.BasicConstraints.is_ca'' = [] \<longrightarrow>
      is_CA_cert c cert = Inr False) \<and>
   (X509_Certificate_ctor c algo tbs signature t = Inr cert \<longrightarrow>
      (\<exists>ca. is_CA_cert c cert = Inr ca))"
proof -
  have decoded: "\<exists>ca. is_CA_cert c cert = Inr ca"
    if "X509_Certificate_ctor c algo tbs signature t = Inr cert"
  proof -
    from ctor_Inr [OF that] obtain this4
      where "default_path_limit c (store_fields c t this4) = Inr cert" by blast
    from default_path_limit_Inr(2,4) [OF this] show ?thesis by auto
  qed
  have "(is_CA_cert c cert = Inr True) =
     (\<exists>is_ca k. get1_u32bit (subject cert) ''X509v3.BasicConstraints.is_ca'' 0 = Inr is_ca \<and>
        is_ca \<noteq> 0 \<and> constraints c cert = Inr k \<and>
        (k = NO_CONSTRAINTS c \<or> k AND KEY_CERT_SIGN c \<noteq> 0))"
    by (auto simp: is_CA_cert_def split: sum.splits)
  moreover have "get1_u32bit (subject cert) ''X509v3.BasicConstraints.is_ca'' 0 = Inr 0 \<longrightarrow>
      is_CA_cert c cert = Inr False"
    by (simp add: is_CA_cert_def)
  moreover have "get1_u32bit (subject cert) ''X509v3.BasicConstraints.is_ca'' 0 = Inr flag \<and>
      flag \<noteq> 0 \<and> constraints c cert = Inr usage \<longrightarrow>
      is_CA_cert c cert = Inr (usage = NO_CONSTRAINTS c \<or> usage AND KEY_CERT_SIGN c \<noteq> 0)"
    by (auto simp: is_CA_cert_def)
  moreover have "get (subject cert) ''X509v3.BasicConstraints.is_ca'' = [] \<longrightarrow>
      is_CA_cert c cert = Inr False"
    by (simp add: is_CA_cert_def get1_u32bit_def)
  ultimately show ?thesis using decoded by blast
qed

theorem is_CA_cert_iff_witness:
  "is_CA_cert example_collab
     (cert_with_subject [(''X509v3.BasicConstraints.is_ca'', ''1''), (''X509v3.KeyUsage'', ''1024'')])
     = Inr True \<and>
   is_CA_cert example_collab
     (cert_with_subject [(''X509v3.BasicConstraints.is_ca'', ''1''), (''X509v3.KeyUsage'', ''512'')])
     = Inr False \<and>
   is_CA_cert example_collab (cert_with_subject [(''X509v3.BasicConstraints.is_ca'', ''1'')])
     = Inr True \<and>
   is_CA_cert example_collab (cert_with_subject [(''X509v3.KeyUsage'', ''1024'')]) = Inr False \<and>
   (\<exists>cert ca. example_cert 2 [1, 2, 0] = Inr cert \<and> is_CA_cert example_collab cert = Inr ca)"
proof -
  let ?ca = "''X509v3.BasicConstraints.is_ca''" and ?ku = "''X509v3.KeyUsage''"
  let ?A = "cert_with_subject [(?ca, ''1''), (?ku, ''1024'')]"
  let ?B = "cert_with_subject [(?ca, ''1''), (?ku, ''512'')]"
  let ?C = "cert_with_subject [(?ca, ''1'')]"
  let ?D = "cert_with_subject [(?ku, ''1024'')]"
  have flag: "get1_u32bit (subject ?A) ?ca 0 = Inr 1 \<and> (1 :: u32bit) \<noteq> 0"
    "get1_u32bit (subject ?B) ?ca 0 = Inr 1" "get1_u32bit (subject ?C) ?ca 0 = Inr 1"
    "get (subject ?D) ?ca = []"
    by (simp_all add: get1_u32bit_def get_def cert_with_subject_def to_u32bit_def char2digit_def)
  have usage: "constraints example_collab ?A = Inr 1024" "constraints example_collab ?B = Inr 512"
    "constraints example_collab ?C = Inr 0"
    by (simp_all add: constraints_def get1_u32bit_def get_def cert_with_subject_def to_u32bit_def
        char2digit_def example_collab_def)
  have vals: "NO_CONSTRAINTS example_collab = 0" "KEY_CERT_SIGN example_collab = 1024"
    by (simp_all add: example_collab_def)
  have a: "is_CA_cert example_collab ?A = Inr True"
    using is_CA_cert_iff [of example_collab ?A 1 1024] flag usage by (simp add: vals)
  have b: "is_CA_cert example_collab ?B = Inr False"
    using is_CA_cert_iff [of example_collab ?B 1 512] flag usage by (simp add: vals)
  have c: "is_CA_cert example_collab ?C = Inr True"
    using is_CA_cert_iff [of example_collab ?C 1 0] flag usage by (simp add: vals)
  have d: "is_CA_cert example_collab ?D = Inr False"
    using is_CA_cert_iff [of example_collab ?D] flag by simp
  have "version (example_tbs 2 [1, 2, 0]) \<le> 2"
    by (simp add: example_tbs_def)
  moreover have "otherwise_well_formed example_collab example_algo (example_tbs 2 [1, 2, 0])"
    by code_simp
  ultimately obtain cert where cert: "example_cert 2 [1, 2, 0] = Inr cert"
    using ctor_total [of "example_tbs 2 [1, 2, 0]" example_collab example_algo "[48, 0]"
        "[1, 2, 3, 4]"]
    unfolding example_cert_def by blast
  from is_CA_cert_iff [where c = example_collab and cert = cert and algo = example_algo
      and tbs = "[48, 0]" and signature = "[1, 2, 3, 4]" and t = "example_tbs 2 [1, 2, 0]"] cert
  have e: "\<exists>ca. is_CA_cert example_collab cert = Inr ca"
    unfolding example_cert_def by blast
  from a b c d e cert show ?thesis by blast
qed

end
